theory Spec2Isabelle
  imports Main "HOL-Library.Sublist"
begin

section \<open>The web.dev Service Worker (src/lib/sw.js)\<close>

text \<open>
  The worker is asynchronous JavaScript. Each handler is modelled as a function from the
  environment (what the network and the browser answer) and the worker's state (the
  \<open>webdev-core\<close> cache, the idb-keyval store and the module-level flag) to a triple: the
  value returned or the error thrown, the state afterwards, and the calls made on the
  outside world, in order. A rejected promise is \<open>Inl\<close> of the error.
\<close>

subsection \<open>JSON documents and responses\<close>

datatype error =
    NetworkError
  | SyntaxError
  | TypeError
  | UnhandledStatus string nat

text \<open>
  Both JSON documents of the worker, the partial of a page and the template bundle, are
  objects read through a fixed set of property names. A document lists every property
  that sw.js reads, each either absent (\<open>None\<close>, JavaScript's \<open>undefined\<close>) or a value
  of the type the interface declares for it. A timestamp is an integer number. A JSON
  value that is neither \<open>null\<close> nor an object has none of these properties and reads as
  the document in which all are absent; reading a property of \<open>null\<close> throws a TypeError.
\<close>

record manifestEntry =
  url :: "string option"

record document =
  template :: "string option"
  manifest :: "manifestEntry list option"
  resourcesVersion :: "string option"
  builtAt :: "int option"
  raw :: "string option"
  title :: "string option"
  rss :: "string option"
  offline :: "bool option"

datatype json = JsonNull | JsonObject document

text \<open>
  A body is either text that does not parse as JSON, or the JSON value it parses to.
  \<open>JSON.stringify\<close> followed by \<open>Response.json()\<close> gives the value back, so a response
  built from \<open>JSON.stringify x\<close> has the body \<open>Json x\<close>.
\<close>

datatype body = Text string | Json json

text \<open>
  The URL that the \<open>Location\<close> header of a redirect denotes: a path with its query on
  the worker's own origin, an authority (the host of another origin) with what follows
  it, or a reference without a leading slash, which is left as it is.
\<close>

datatype target =
    OwnOrigin string
  | OtherAuthority string string
  | Unanchored string

record response =
  status :: nat
  headers :: "(string \<times> string) list"
  location :: "target option"
  body :: body

definition ok :: "response \<Rightarrow> bool" where
  "ok r = (200 \<le> status r \<and> status r \<le> 299)"

definition json_of :: "response \<Rightarrow> error + json" where
  "json_of r = (case body r of Text s \<Rightarrow> Inl SyntaxError | Json j \<Rightarrow> Inr j)"

definition newResponse :: "body \<Rightarrow> response" where
  "newResponse b =
     \<lparr>status = 200, headers = [(''Content-Type'', ''text/plain;charset=UTF-8'')],
      location = None, body = b\<rparr>"

text \<open>
  \<open>Response.redirect(url, code)\<close> parses \<open>url\<close> against the worker's own URL, which is
  an https URL. A reference that starts with two slashes is scheme-relative (in such a
  URL a backslash counts as a slash): after any further slashes comes the authority, up
  to the next slash, \<open>?\<close> or \<open>#\<close>, and an empty authority makes the parser fail, so that
  \<open>Response.redirect\<close> throws a TypeError. A reference that starts with one slash is a
  path on the worker's origin. The handler builds its reference from the serialized
  \<open>pathname\<close> and \<open>search\<close> of a parsed URL: such text holds no white space and no
  backslash, and the parser leaves it as it is. The authority is kept as written.
\<close>

definition isSlash :: "char \<Rightarrow> bool" where
  "isSlash c = (c = CHR ''/'' \<or> c = CHR 0x5C)"

definition endsAuthority :: "char \<Rightarrow> bool" where
  "endsAuthority c = (isSlash c \<or> c = CHR ''?'' \<or> c = CHR ''#'')"

definition resolveReference :: "string \<Rightarrow> error + target" where
  "resolveReference ref =
     (case ref of
        [] \<Rightarrow> Inr (Unanchored ref)
      | [c] \<Rightarrow> (if isSlash c then Inr (OwnOrigin ref) else Inr (Unanchored ref))
      | c # d # rest \<Rightarrow>
          (if isSlash c \<and> isSlash d then
             (let r = dropWhile isSlash rest;
                  authority = takeWhile (\<lambda>x. \<not> endsAuthority x) r
              in (if authority = [] then Inl TypeError
                  else Inr (OtherAuthority authority
                              (dropWhile (\<lambda>x. \<not> endsAuthority x) r))))
           else if isSlash c then Inr (OwnOrigin ref)
           else Inr (Unanchored ref)))"

definition redirect :: "string \<Rightarrow> nat \<Rightarrow> error + response" where
  "redirect ref code =
     (case resolveReference ref of
        Inl x \<Rightarrow> Inl x
      | Inr t \<Rightarrow> Inr \<lparr>status = code, headers = [], location = Some t, body = Text []\<rparr>)"

subsection \<open>Constants of the module\<close>

definition idbKeys_architecture :: string where
  "idbKeys_architecture = ''arch''"

definition cacheNames_webdevCore :: string where
  "cacheNames_webdevCore = ''webdev-core''"

definition templateUrl :: string where
  "templateUrl = ''/template-json''"

definition serviceWorkerArchitecture :: string where
  "serviceWorkerArchitecture = ''v3''"

definition offlineUrl :: string where
  "offlineUrl = ''/offline/index.json''"

subsection \<open>State, environment and observable calls\<close>

record world =
  webdevCore :: "string \<rightharpoonup> response"
  idbStore :: "string \<rightharpoonup> string"
  replacingPreviousServiceWorker :: bool

record requestUrl =
  pathname :: string
  search :: string

text \<open>
  \<open>network\<close> is \<open>fetch\<close>: what a request for the URL string answers, or the error it
  throws (as it does for a string that is no URL). A cache stores and finds a response
  under the URL its request resolves to, without the fragment; \<open>resolveUrl\<close> is that
  resolution, done by the browser against the worker's URL.
\<close>

record env =
  network :: "string \<Rightarrow> error + response"
  resolveUrl :: "string \<Rightarrow> string"
  partialStrategy :: "string \<Rightarrow> error + response"
  registrationActive :: bool
  windowClients :: "string list"
  runtimeCacheName :: string

datatype event =
    Fetch string
  | StrategyHandle string
  | CacheMatch string string
  | CachesOpen string
  | CachePut string response
  | CacheAddAll "string list"
  | CachesDelete string
  | IdbGet string
  | IdbSet string string
  | SkipWaiting
  | ClientsClaim
  | ClientsMatchAll
  | Navigate string

text \<open>The initial value of the module: \<open>let replacingPreviousServiceWorker = false\<close>.\<close>

definition freshWorker :: "(string \<rightharpoonup> response) \<Rightarrow> (string \<rightharpoonup> string) \<Rightarrow> world" where
  "freshWorker c s = \<lparr>webdevCore = c, idbStore = s, replacingPreviousServiceWorker = False\<rparr>"

subsection \<open>JavaScript operators on optional strings and numbers\<close>

definition truthy :: "string option \<Rightarrow> bool" where
  "truthy v = (case v of None \<Rightarrow> False | Some s \<Rightarrow> s \<noteq> [])"

definition toString :: "string option \<Rightarrow> string" where
  "toString v = (case v of None \<Rightarrow> ''undefined'' | Some s \<Rightarrow> s)"

definition orDefault :: "string option \<Rightarrow> string \<Rightarrow> string" where
  "orDefault v d = (case v of None \<Rightarrow> d | Some s \<Rightarrow> if s = [] then d else s)"

text \<open>
  \<open>a > b\<close> on numbers that may be \<open>undefined\<close>: \<open>undefined\<close> converts to NaN, and every
  comparison with NaN is false.
\<close>

definition jsGreater :: "int option \<Rightarrow> int option \<Rightarrow> bool" where
  "jsGreater a b =
     (case a of None \<Rightarrow> False
      | Some x \<Rightarrow> (case b of None \<Rightarrow> False | Some y \<Rightarrow> y < x))"

subsection \<open>String.prototype.replace with a string pattern\<close>

text \<open>
  \<open>firstOccurrence pat s\<close> splits \<open>s\<close> around the first occurrence of \<open>pat\<close>; \<open>getSubstitution\<close>
  expands the \<open>$\<close> patterns of the replacement text. A string pattern has no capture
  groups, so \<open>$1\<close> and the like stay as they are.
\<close>

fun firstOccurrence :: "string \<Rightarrow> string \<Rightarrow> (string \<times> string) option" where
  "firstOccurrence pat [] = (if pat = [] then Some ([], []) else None)"
| "firstOccurrence pat (c # cs) =
     (if prefix pat (c # cs) then Some ([], drop (length pat) (c # cs))
      else (case firstOccurrence pat cs of
              None \<Rightarrow> None
            | Some (pre, post) \<Rightarrow> Some (c # pre, post)))"

fun getSubstitution :: "string \<Rightarrow> string \<Rightarrow> string \<Rightarrow> string \<Rightarrow> string" where
  "getSubstitution matched pre post [] = []"
| "getSubstitution matched pre post [c] = [c]"
| "getSubstitution matched pre post (c # d # r) =
     (if c = CHR ''$'' then
        (if d = CHR ''$'' then CHR ''$'' # getSubstitution matched pre post r
         else if d = CHR ''&'' then matched @ getSubstitution matched pre post r
         else if d = CHR 0x60 then pre @ getSubstitution matched pre post r
         else if d = CHR 0x27 then post @ getSubstitution matched pre post r
         else c # getSubstitution matched pre post (d # r))
      else c # getSubstitution matched pre post (d # r))"

definition replaceFirst :: "string \<Rightarrow> string \<Rightarrow> string \<Rightarrow> string" where
  "replaceFirst s pat replacement =
     (case firstOccurrence pat s of
        None \<Rightarrow> s
      | Some (pre, post) \<Rightarrow>
          pre @ getSubstitution pat pre post replacement @ post)"

text \<open>\<open>pathname.replace(/\.html$/, '.json')\<close>: only a trailing \<open>.html\<close> is replaced.\<close>

definition htmlToJson :: "string \<Rightarrow> string" where
  "htmlToJson p =
     (if suffix ''.html'' p then take (length p - 5) p @ ''.json'' else p)"

subsection \<open>updateTemplate\<close>

definition requestInfo :: "manifestEntry \<Rightarrow> string" where
  "requestInfo e = toString (url e)"

text \<open>
  \<open>cache.addAll\<close> fetches every URL, rejects when a fetch fails or a response is not ok,
  and stores nothing unless all of them succeeded; then each response is stored under
  the URL its request resolves to. An entry of the manifest without \<open>url\<close> is requested
  as the string \<open>undefined\<close>.
\<close>

definition fetchedOk :: "env \<Rightarrow> string \<Rightarrow> bool" where
  "fetchedOk e u = (case network e u of Inl x \<Rightarrow> False | Inr r \<Rightarrow> ok r)"

fun putAll :: "env \<Rightarrow> (string \<rightharpoonup> response) \<Rightarrow> string list \<Rightarrow> (string \<rightharpoonup> response)" where
  "putAll e c [] = c"
| "putAll e c (u # us) =
     putAll e (case network e u of Inl x \<Rightarrow> c | Inr r \<Rightarrow> c(resolveUrl e u \<mapsto> r)) us"

definition addAll :: "env \<Rightarrow> (string \<rightharpoonup> response) \<Rightarrow> string list \<Rightarrow> error + (string \<rightharpoonup> response)" where
  "addAll e c us = (if list_all (fetchedOk e) us then Inr (putAll e c us) else Inl TypeError)"

definition updateTemplate :: "env \<Rightarrow> world \<Rightarrow> (error + string option) \<times> world \<times> event list" where
  "updateTemplate e w =
     (case network e templateUrl of
        Inl x \<Rightarrow> (Inl x, w, [Fetch templateUrl])
      | Inr networkResponse \<Rightarrow>
          (case json_of networkResponse of
             Inl x \<Rightarrow> (Inl x, w, [Fetch templateUrl])
           | Inr JsonNull \<Rightarrow> (Inl TypeError, w, [Fetch templateUrl])
           | Inr (JsonObject rawBundle) \<Rightarrow>
               (let stored = newResponse (Json (JsonObject (rawBundle\<lparr>manifest := None\<rparr>)));
                    w1 = w\<lparr>webdevCore := (webdevCore w)(resolveUrl e templateUrl \<mapsto> stored)\<rparr>;
                    ev = [Fetch templateUrl, CachesOpen cacheNames_webdevCore,
                          CachePut templateUrl stored]
                in (case manifest rawBundle of
                      None \<Rightarrow> (Inl TypeError, w1, ev)
                    | Some entries \<Rightarrow>
                        (let urls = map requestInfo entries
                         in (case addAll e (webdevCore w1) urls of
                               Inl x \<Rightarrow> (Inl x, w1, ev @ [CacheAddAll urls])
                             | Inr c \<Rightarrow>
                                 (Inr (template rawBundle), w1\<lparr>webdevCore := c\<rparr>,
                                  ev @ [CacheAddAll urls])))))))"

subsection \<open>templateForPartial\<close>

text \<open>
  The \<open>try\<close> block destructures \<open>{template}\<close> from what \<open>updateTemplate\<close> returns. That is
  the template string itself (or \<open>undefined\<close>): a string has no property \<open>template\<close>, so
  the destructured value is \<open>undefined\<close>, and destructuring \<open>undefined\<close> throws a TypeError
  inside the \<open>try\<close>.
\<close>

definition destructureTemplate :: "string option \<Rightarrow> error + string option" where
  "destructureTemplate v = (case v of None \<Rightarrow> Inl TypeError | Some s \<Rightarrow> Inr None)"

definition tryUpdate :: "env \<Rightarrow> world \<Rightarrow> (error + string option) \<times> world \<times> event list" where
  "tryUpdate e w =
     (case updateTemplate e w of
        (Inl x, w', ev) \<Rightarrow> (Inl x, w', ev)
      | (Inr v, w', ev) \<Rightarrow> (destructureTemplate v, w', ev))"

definition refreshOrFallback ::
  "env \<Rightarrow> world \<Rightarrow> string option \<Rightarrow> (error + string option) \<times> world \<times> event list" where
  "refreshOrFallback e w fallbackTemplate =
     (case tryUpdate e w of
        (Inr t, w', ev) \<Rightarrow> (Inr t, w', ev)
      | (Inl x, w', ev) \<Rightarrow>
          (if truthy fallbackTemplate then (Inr fallbackTemplate, w', ev)
           else (Inl x, w', ev)))"

definition following :: "event list \<Rightarrow> 'a \<times> world \<times> event list \<Rightarrow> 'a \<times> world \<times> event list" where
  "following evs r = (case r of (x, w, ev) \<Rightarrow> (x, w, evs @ ev))"

definition templateForPartial ::
  "env \<Rightarrow> world \<Rightarrow> json \<Rightarrow> (error + string option) \<times> world \<times> event list" where
  "templateForPartial e w partial =
     (let looked = [CacheMatch templateUrl cacheNames_webdevCore]
      in (case webdevCore w (resolveUrl e templateUrl) of
            None \<Rightarrow> following looked (refreshOrFallback e w None)
          | Some cachedResponse \<Rightarrow>
              (case json_of cachedResponse of
                 Inl x \<Rightarrow> (Inl x, w, looked)
               | Inr JsonNull \<Rightarrow> (Inl TypeError, w, looked)
               | Inr (JsonObject cached) \<Rightarrow>
                   (if \<not> truthy (resourcesVersion cached)
                    then following looked (refreshOrFallback e w (template cached))
                    else (case partial of
                            JsonNull \<Rightarrow> (Inl TypeError, w, looked)
                          | JsonObject p \<Rightarrow>
                              (if resourcesVersion cached = resourcesVersion p
                                  \<or> jsGreater (builtAt cached) (builtAt p)
                               then (Inr (template cached), w, looked)
                               else following looked
                                      (refreshOrFallback e w (template cached))))))))"

subsection \<open>offlinePartialResponse\<close>

definition devOffline :: document where
  "devOffline =
     \<lparr>template = None, manifest = None, resourcesVersion = None, builtAt = None,
      raw = Some ''<h1>Dev offline</h1>'', title = Some [], rss = None,
      offline = Some True\<rparr>"

definition offlinePartialResponse :: "env \<Rightarrow> world \<Rightarrow> response \<times> event list" where
  "offlinePartialResponse e w =
     (case webdevCore w (resolveUrl e offlineUrl) of
        None \<Rightarrow> (newResponse (Json (JsonObject devOffline)),
                 [CacheMatch offlineUrl cacheNames_webdevCore])
      | Some cachedResponse \<Rightarrow> (cachedResponse, [CacheMatch offlineUrl cacheNames_webdevCore]))"

subsection \<open>The handler of the normal route\<close>

definition headMarker :: string where
  "headMarker = ''<!-- %_HEAD_REPLACE_% -->''"

definition contentMarker :: string where
  "contentMarker = ''%_CONTENT_REPLACE_%''"

definition metaTag :: "document \<Rightarrow> string" where
  \<open>metaTag p = (if offline p = Some True then ''<meta name="offline" value="true" />'' else [])\<close>

definition titleTag :: "document \<Rightarrow> string" where
  "titleTag p = ''<title>'' @ orDefault (title p) ''web.dev'' @ ''</title>''"

definition rssHref :: "document \<Rightarrow> string" where
  "rssHref p = orDefault (rss p) ''/feed.xml''"

definition rssTitle :: "document \<Rightarrow> string" where
  "rssTitle p =
     (if rss p \<noteq> Some ''/feed.xml'' then toString (title p) @ '' on web.dev''
      else ''web.dev feed'')"

definition rssTag :: "document \<Rightarrow> string" where
  \<open>rssTag p =
     ''<link rel="alternate" href="'' @ rssHref p
       @ ''" type="application/atom+xml" data-title="'' @ rssTitle p @ ''" />''\<close>

definition headInjection :: "document \<Rightarrow> string" where
  "headInjection p = metaTag p @ ''\<newline>'' @ titleTag p @ ''\<newline>'' @ rssTag p"

definition hydrate :: "string \<Rightarrow> document \<Rightarrow> string" where
  "hydrate layoutTemplate p =
     replaceFirst (replaceFirst layoutTemplate headMarker (headInjection p))
       contentMarker (toString (raw p))"




text \<open>
  The \<open>try\<close>/\<open>catch\<close> around \<open>partialStrategy.handle\<close>: a thrown error is replaced by the
  offline partial.
\<close>

definition fetchPartial :: "env \<Rightarrow> world \<Rightarrow> string \<Rightarrow> response \<times> event list" where
  "fetchPartial e w partialPath =
     (case partialStrategy e partialPath of
        Inr r \<Rightarrow> (r, [StrategyHandle partialPath])
      | Inl x \<Rightarrow>
          (case offlinePartialResponse e w of
             (r, ev) \<Rightarrow> (r, StrategyHandle partialPath # ev)))"

definition htmlResponse :: "string \<Rightarrow> nat \<Rightarrow> response" where
  "htmlResponse output code =
     \<lparr>status = code, headers = [(''Content-Type'', ''text/html'')], location = None,
      body = Text output\<rparr>"

definition synthesize ::
  "env \<Rightarrow> world \<Rightarrow> requestUrl \<Rightarrow> response \<Rightarrow> (error + response) \<times> world \<times> event list" where
  "synthesize e w u r =
     (if \<not> ok r then (Inl (UnhandledStatus (pathname u) (status r)), w, [])
      else (case json_of r of
              Inl x \<Rightarrow> (Inl x, w, [])
            | Inr partial \<Rightarrow>
                (case templateForPartial e w partial of
                   (Inl x, w', ev) \<Rightarrow> (Inl x, w', ev)
                 | (Inr layoutTemplate, w', ev) \<Rightarrow>
                     (case partial of
                        JsonNull \<Rightarrow> (Inl TypeError, w', ev)
                      | JsonObject p \<Rightarrow>
                          (case layoutTemplate of
                             None \<Rightarrow> (Inl TypeError, w', ev)
                           | Some t \<Rightarrow>
                               (Inr (htmlResponse (hydrate t p) (status r)), w', ev))))))"

definition hydratePage ::
  "env \<Rightarrow> world \<Rightarrow> requestUrl \<Rightarrow> string \<Rightarrow> (error + response) \<times> world \<times> event list" where
  "hydratePage e w u htmlPath =
     (case fetchPartial e w (htmlToJson htmlPath) of
        (r, ev) \<Rightarrow> following ev (synthesize e w u r))"

definition normalRouteHandler ::
  "env \<Rightarrow> world \<Rightarrow> requestUrl \<Rightarrow> (error + response) \<times> world \<times> event list" where
  "normalRouteHandler e w u =
     (if \<not> suffix ''.html'' (pathname u) then
        (if \<not> suffix ''/'' (pathname u)
         then (redirect (pathname u @ ''/'' @ search u) 301, w, [])
         else hydratePage e w u (pathname u @ ''index.html''))
      else hydratePage e w u (pathname u))"

subsection \<open>Install and activate\<close>

definition install :: "env \<Rightarrow> world \<Rightarrow> (error + unit) \<times> world \<times> event list" where
  "install e w =
     (let w0 = (if registrationActive e then w\<lparr>replacingPreviousServiceWorker := True\<rparr>
                else w)
      in (case updateTemplate e w0 of
            (Inl x, w', ev) \<Rightarrow> (Inl x, w', ev)
          | (Inr t, w', ev) \<Rightarrow> (Inr (), w', ev @ [SkipWaiting])))"

text \<open>
  Both \<open>activate\<close> listeners: the first deletes the Workbox runtime cache, the second
  compares the architecture. The store and the clients interface belong to the browser;
  their calls complete.
\<close>

definition activate :: "env \<Rightarrow> world \<Rightarrow> world \<times> event list" where
  "activate e w =
     (let previousArchitecture = idbStore w idbKeys_architecture;
          ev0 = [CachesDelete (runtimeCacheName e), IdbGet idbKeys_architecture]
      in (if previousArchitecture = Some serviceWorkerArchitecture then (w, ev0)
          else
            (let w1 = w\<lparr>idbStore :=
                         (idbStore w)(idbKeys_architecture \<mapsto> serviceWorkerArchitecture)\<rparr>;
                 ev1 = ev0 @ [IdbSet idbKeys_architecture serviceWorkerArchitecture,
                              ClientsClaim]
             in (if replacingPreviousServiceWorker w
                 then (w1, ev1 @ ClientsMatchAll # map Navigate (windowClients e))
                 else (w1, ev1)))))"

subsection \<open>Concrete documents, caches and environments\<close>

text \<open>
  In the examples the worker runs on \<open>https://web.dev\<close> and every URL is a path on that
  origin, without fragment.
\<close>

definition siteUrl :: "string \<Rightarrow> string" where
  "siteUrl u = ''https://web.dev'' @ u"

text \<open>The partial and the cached bundle of the specification's example.\<close>

definition examplePartial :: document where
  "examplePartial =
     \<lparr>template = None, manifest = None, resourcesVersion = Some ''r1'', builtAt = Some 5,
      raw = Some ''<p>hi</p>'', title = Some ''Hi'', rss = None, offline = None\<rparr>"

definition exampleTemplate :: string where
  "exampleTemplate =
     ''<head><!-- %_HEAD_REPLACE_% --></head><body>%_CONTENT_REPLACE_%</body>''"

definition exampleBundle :: document where
  "exampleBundle =
     \<lparr>template = Some exampleTemplate, manifest = None, resourcesVersion = Some ''r1'',
      builtAt = Some 10, raw = None, title = None, rss = None, offline = None\<rparr>"

definition cachedWorld :: world where
  "cachedWorld =
     freshWorker [siteUrl templateUrl \<mapsto> newResponse (Json (JsonObject exampleBundle))]
       Map.empty"

text \<open>A cached bundle whose template is the empty string, built before the example partial.\<close>

definition blankBundle :: document where
  "blankBundle =
     \<lparr>template = Some [], manifest = None, resourcesVersion = Some ''r0'',
      builtAt = Some 1, raw = None, title = None, rss = None, offline = None\<rparr>"

definition blankWorld :: world where
  "blankWorld =
     freshWorker [siteUrl templateUrl \<mapsto> newResponse (Json (JsonObject blankBundle))]
       Map.empty"

text \<open>No network: every fetch and the partial strategy throw. Two windows are open.\<close>

definition offlineEnv :: env where
  "offlineEnv =
     \<lparr>network = (\<lambda>u. Inl NetworkError), resolveUrl = siteUrl,
      partialStrategy = (\<lambda>u. Inl NetworkError),
      registrationActive = True,
      windowClients = [''https://web.dev/'', ''https://web.dev/blog/''],
      runtimeCacheName = ''workbox-runtime''\<rparr>"

text \<open>The template endpoint answers with a bundle that lists one asset.\<close>

definition networkBundle :: document where
  "networkBundle =
     \<lparr>template = Some exampleTemplate, manifest = Some [\<lparr>url = Some ''/app.css''\<rparr>],
      resourcesVersion = Some ''r2'', builtAt = Some 20, raw = None, title = None,
      rss = None, offline = None\<rparr>"

definition onlineEnv :: env where
  "onlineEnv =
     \<lparr>network = (\<lambda>u. if u = templateUrl
                         then Inr (newResponse (Json (JsonObject networkBundle)))
                         else Inr (newResponse (Text ''body{}''))),
      resolveUrl = siteUrl,
      partialStrategy =
        (\<lambda>u. Inr \<lparr>status = 404, headers = [], location = None, body = Text ''Not Found''\<rparr>),
      registrationActive = False, windowClients = [],
      runtimeCacheName = ''workbox-runtime''\<rparr>"

text \<open>The template endpoint answers, the asset of its manifest cannot be fetched.\<close>

definition assetsDownEnv :: env where
  "assetsDownEnv =
     \<lparr>network = (\<lambda>u. if u = templateUrl
                         then Inr (newResponse (Json (JsonObject networkBundle)))
                         else Inl NetworkError),
      resolveUrl = siteUrl,
      partialStrategy = (\<lambda>u. Inl NetworkError),
      registrationActive = False, windowClients = [],
      runtimeCacheName = ''workbox-runtime''\<rparr>"





text \<open>A cache whose offline partial was stored with a server error status.\<close>

definition brokenOfflineWorld :: world where
  "brokenOfflineWorld =
     freshWorker
       [siteUrl offlineUrl \<mapsto>
          \<lparr>status = 503, headers = [], location = None, body = Text ''Unavailable''\<rparr>]
       Map.empty"

text \<open>A worker that replaced an active one and has never stored an architecture.\<close>

definition upgradingWorld :: world where
  "upgradingWorld =
     \<lparr>webdevCore = Map.empty, idbStore = Map.empty, replacingPreviousServiceWorker = True\<rparr>"

definition settledWorld :: world where
  "settledWorld =
     \<lparr>webdevCore = Map.empty, idbStore = [idbKeys_architecture \<mapsto> serviceWorkerArchitecture],
      replacingPreviousServiceWorker = True\<rparr>"

text \<open>A partial built after the example bundle, against other resources.\<close>

definition newerPartial :: document where
  "newerPartial =
     \<lparr>template = None, manifest = None, resourcesVersion = Some ''r2'', builtAt = Some 20,
      raw = Some ''<p>new</p>'', title = Some ''New'', rss = None, offline = None\<rparr>"

definition emptyWorld :: world where
  "emptyWorld = freshWorker Map.empty Map.empty"




section \<open>Properties\<close>

subsection \<open>Shared facts\<close>


lemma updateTemplate_fetches:
  "Fetch templateUrl \<in> set (snd (snd (updateTemplate e w)))"
  by (simp add: updateTemplate_def Let_def split: sum.split json.split option.split)

lemma tryUpdate_fetches:
  "Fetch templateUrl \<in> set (snd (snd (tryUpdate e w)))"
  using updateTemplate_fetches [of e w]
  by (auto simp add: tryUpdate_def split: prod.split sum.split)

lemma refreshOrFallback_fetches:
  "Fetch templateUrl \<in> set (snd (snd (refreshOrFallback e w f)))"
  using tryUpdate_fetches [of e w]
  by (auto simp add: refreshOrFallback_def split: prod.split sum.split)

lemma following_events:
  "snd (snd (following evs r)) = evs @ snd (snd r)"
  by (simp add: following_def split: prod.split)

lemma following_fst:
  "fst (following evs r) = fst r"
  by (simp add: following_def split: prod.split)

lemma offlineEnv_resolve:
  "resolveUrl offlineEnv = siteUrl"
  by (simp add: offlineEnv_def)

lemma updateTemplate_offline:
  "updateTemplate offlineEnv w = (Inl NetworkError, w, [Fetch templateUrl])"
  by (simp add: updateTemplate_def offlineEnv_def)

lemma refreshOrFallback_offline:
  "refreshOrFallback offlineEnv w f
     = (if truthy f then Inr f else Inl NetworkError, w, [Fetch templateUrl])"
  by (simp add: refreshOrFallback_def tryUpdate_def updateTemplate_offline)

lemma cachedWorld_entry:
  "webdevCore cachedWorld (siteUrl templateUrl)
     = Some (newResponse (Json (JsonObject exampleBundle)))"
  by (simp add: cachedWorld_def freshWorker_def)

lemma json_of_newResponse:
  "json_of (newResponse (Json j)) = Inr j"
  by (simp add: json_of_def newResponse_def)


lemma tryUpdate_error:
  "fst (updateTemplate e w) = Inl x \<Longrightarrow> fst (tryUpdate e w) = Inl x"
  by (auto simp add: tryUpdate_def split: prod.splits sum.splits)

lemma refreshOrFallback_error:
  "fst (tryUpdate e w) = Inl x \<Longrightarrow>
   fst (refreshOrFallback e w f) = (if truthy f then Inr f else Inl x)"
  by (auto simp add: refreshOrFallback_def split: prod.splits sum.splits)


subsection \<open>Choosing between the cached template and a refresh\<close>

text \<open>
  C1. Let the \<open>webdev-core\<close> cache hold a template bundle. When its \<open>resourcesVersion\<close> is
  a non-empty string, \<open>templateForPartial\<close> returns the cached template with no fetch of
  the template endpoint exactly when the cached \<open>resourcesVersion\<close> equals the partial's
  or the cached \<open>builtAt\<close> is greater than the partial's; in that case nothing but the
  cache lookup happens and the state is unchanged. When the cached \<open>resourcesVersion\<close> is
  the empty string, the function goes to the refresh whatever the partial is, and the
  template endpoint is fetched.
\<close>

theorem templateForPartial_cached_decision:
  assumes "webdevCore w (resolveUrl e templateUrl) = Some cachedResponse"
    and "json_of cachedResponse = Inr (JsonObject cached)"
  shows "(truthy (resourcesVersion cached) \<longrightarrow>
            ((fst (templateForPartial e w (JsonObject p)) = Inr (template cached)
               \<and> Fetch templateUrl \<notin> set (snd (snd (templateForPartial e w (JsonObject p)))))
             \<longleftrightarrow> (resourcesVersion cached = resourcesVersion p
                   \<or> jsGreater (builtAt cached) (builtAt p)))
          \<and> ((resourcesVersion cached = resourcesVersion p
                   \<or> jsGreater (builtAt cached) (builtAt p)) \<longrightarrow>
               templateForPartial e w (JsonObject p)
                 = (Inr (template cached), w, [CacheMatch templateUrl cacheNames_webdevCore])))
       \<and> (resourcesVersion cached = Some [] \<longrightarrow>
            templateForPartial e w partial
              = following [CacheMatch templateUrl cacheNames_webdevCore]
                  (refreshOrFallback e w (template cached))
            \<and> Fetch templateUrl \<in> set (snd (snd (templateForPartial e w partial))))"
  using assms refreshOrFallback_fetches [of e w "template cached"]
  by (auto simp add: templateForPartial_def Let_def following_events truthy_def templateUrl_def)

theorem templateForPartial_cached_decision_witness:
  "webdevCore cachedWorld (resolveUrl offlineEnv templateUrl)
     = Some (newResponse (Json (JsonObject exampleBundle)))
   \<and> json_of (newResponse (Json (JsonObject exampleBundle))) = Inr (JsonObject exampleBundle)
   \<and> truthy (resourcesVersion exampleBundle)
   \<and> resourcesVersion exampleBundle = resourcesVersion examplePartial
   \<and> templateForPartial offlineEnv cachedWorld (JsonObject examplePartial)
       = (Inr (Some exampleTemplate), cachedWorld,
          [CacheMatch templateUrl cacheNames_webdevCore])"
proof -
  have entry: "webdevCore cachedWorld (resolveUrl offlineEnv templateUrl)
                 = Some (newResponse (Json (JsonObject exampleBundle)))"
    by (simp add: offlineEnv_def cachedWorld_entry)
  show ?thesis
    using entry
      templateForPartial_cached_decision
        [OF entry json_of_newResponse, where p = examplePartial]
    by (simp add: json_of_newResponse exampleBundle_def examplePartial_def truthy_def)
qed

subsection \<open>A partial response that is not ok\<close>

text \<open>
  C4. Take a request that is not redirected, and let \<open>partialPath\<close> be the path of its
  partial. If the partial strategy returns a response whose status is not ok, or if the
  strategy throws and the offline partial that replaces it has a status that is not ok,
  the handler throws the error that names the requested path and that status. It has
  synthesized nothing: the state is unchanged, the template was neither looked up nor
  fetched, and the only calls are those that obtained the response.
\<close>

theorem normalRouteHandler_unhandled_status:
  assumes "suffix ''/'' (pathname u) \<or> suffix ''.html'' (pathname u)"
    and "partialPath = htmlToJson (if suffix ''.html'' (pathname u) then pathname u
                                   else pathname u @ ''index.html'')"
  shows "(partialStrategy e partialPath = Inr r \<longrightarrow> \<not> ok r \<longrightarrow>
            normalRouteHandler e w u
              = (Inl (UnhandledStatus (pathname u) (status r)), w,
                 [StrategyHandle partialPath]))
       \<and> (partialStrategy e partialPath = Inl x \<longrightarrow>
            offlinePartialResponse e w = (r', ev) \<longrightarrow> \<not> ok r' \<longrightarrow>
            normalRouteHandler e w u
              = (Inl (UnhandledStatus (pathname u) (status r')), w,
                 StrategyHandle partialPath # ev))"
  using assms
  by (auto simp add: normalRouteHandler_def hydratePage_def fetchPartial_def synthesize_def
      following_def)

theorem normalRouteHandler_unhandled_status_witness:
  "normalRouteHandler onlineEnv cachedWorld \<lparr>pathname = ''/foo/'', search = []\<rparr>
     = (Inl (UnhandledStatus ''/foo/'' 404), cachedWorld, [StrategyHandle ''/foo/index.json''])
   \<and> normalRouteHandler offlineEnv brokenOfflineWorld \<lparr>pathname = ''/foo/'', search = []\<rparr>
     = (Inl (UnhandledStatus ''/foo/'' 503), brokenOfflineWorld,
        [StrategyHandle ''/foo/index.json'', CacheMatch offlineUrl cacheNames_webdevCore])"
proof -
  let ?u = "\<lparr>pathname = ''/foo/'', search = []\<rparr>"
  let ?notFound = "\<lparr>status = 404, headers = [], location = None, body = Text ''Not Found''\<rparr>"
  let ?unavailable = "\<lparr>status = 503, headers = [], location = None, body = Text ''Unavailable''\<rparr>"
  have slash: "suffix ''/'' (pathname ?u) \<or> suffix ''.html'' (pathname ?u)"
    by (simp add: suffix_to_prefix)
  have path: "''/foo/index.json''
                = htmlToJson (if suffix ''.html'' (pathname ?u) then pathname ?u
                              else pathname ?u @ ''index.html'')"
    by (simp add: htmlToJson_def suffix_to_prefix)
  have strategy: "partialStrategy onlineEnv ''/foo/index.json'' = Inr ?notFound"
    by (simp add: onlineEnv_def)
  have thrown: "partialStrategy offlineEnv ''/foo/index.json'' = Inl NetworkError"
    by (simp add: offlineEnv_def)
  have substitute: "offlinePartialResponse offlineEnv brokenOfflineWorld
                      = (?unavailable, [CacheMatch offlineUrl cacheNames_webdevCore])"
    by (simp add: offlinePartialResponse_def brokenOfflineWorld_def freshWorker_def
        offlineEnv_def)
  have "\<not> ok ?notFound" and "\<not> ok ?unavailable"
    by (simp_all add: ok_def)
  then show ?thesis
    using strategy thrown substitute
      normalRouteHandler_unhandled_status
        [OF slash path, where e = onlineEnv and r = ?notFound and w = cachedWorld]
      normalRouteHandler_unhandled_status
        [OF slash path, where e = offlineEnv and x = NetworkError
           and w = brokenOfflineWorld and r' = ?unavailable
           and ev = "[CacheMatch offlineUrl cacheNames_webdevCore]"]
    by simp
qed

subsection \<open>The title of the feed link\<close>

text \<open>
  C5. The claim is that a partial without \<open>rss\<close> gets the default feed title
  \<open>web.dev feed\<close>. The handler compares \<open>partial.rss\<close>, not the path it falls back to,
  with \<open>/feed.xml\<close>: for the partial \<open>{raw: "<p>hi</p>", title: "Hi", builtAt: 5,
  resourcesVersion: "r1"}\<close>, which has no \<open>rss\<close>, the link points to the default feed
  \<open>/feed.xml\<close> and is titled \<open>Hi on web.dev\<close>.
\<close>

theorem rssTitle_without_rss:
  \<open>rss examplePartial = None
   \<and> rssHref examplePartial = ''/feed.xml''
   \<and> rssTitle examplePartial = ''Hi on web.dev''
   \<and> rssTitle examplePartial \<noteq> ''web.dev feed''
   \<and> rssTag examplePartial
       = ''<link rel="alternate" href="/feed.xml" type="application/atom+xml" data-title="Hi on web.dev" />''\<close>
  by (simp add: examplePartial_def rssTag_def rssHref_def rssTitle_def orDefault_def
      toString_def)

subsection \<open>Activation\<close>

lemma updateTemplate_replacing:
  "replacingPreviousServiceWorker (fst (snd (updateTemplate e w)))
     = replacingPreviousServiceWorker w"
  by (simp add: updateTemplate_def Let_def split: sum.split json.split option.split)

lemma install_replacing:
  "replacingPreviousServiceWorker (fst (snd (install e w)))
     = (replacingPreviousServiceWorker w \<or> registrationActive e)"
proof (cases "registrationActive e")
  case True
  then show ?thesis
    using updateTemplate_replacing [of e "w\<lparr>replacingPreviousServiceWorker := True\<rparr>"]
    by (auto simp add: install_def split: prod.split sum.split)
next
  case False
  then show ?thesis
    using updateTemplate_replacing [of e w]
    by (auto simp add: install_def split: prod.split sum.split)
qed

text \<open>
  C2. On activation: when the stored architecture equals the worker's, the state is
  unchanged and the only calls are the deletion of the runtime cache and the read of the
  store, so no client is claimed and no window is navigated. When it differs, or none is
  stored, the worker's architecture is stored and the clients are claimed, and if the
  flag \<open>replacingPreviousServiceWorker\<close> is set every open window is navigated to its own
  URL. A window is navigated only if that flag is set and the architecture differed; and
  after the install of a freshly started worker the flag is set only if the registration
  had an active worker.
\<close>

theorem activate_architecture:
  "(idbStore w idbKeys_architecture = Some serviceWorkerArchitecture \<longrightarrow>
      activate e w = (w, [CachesDelete (runtimeCacheName e), IdbGet idbKeys_architecture]))
   \<and> (idbStore w idbKeys_architecture \<noteq> Some serviceWorkerArchitecture \<longrightarrow>
        idbStore (fst (activate e w)) idbKeys_architecture = Some serviceWorkerArchitecture
        \<and> IdbSet idbKeys_architecture serviceWorkerArchitecture \<in> set (snd (activate e w))
        \<and> ClientsClaim \<in> set (snd (activate e w))
        \<and> (replacingPreviousServiceWorker w \<longrightarrow>
             (\<forall>c \<in> set (windowClients e). Navigate c \<in> set (snd (activate e w)))))
   \<and> (Navigate c \<in> set (snd (activate e w)) \<longrightarrow>
        replacingPreviousServiceWorker w \<and> c \<in> set (windowClients e)
        \<and> idbStore w idbKeys_architecture \<noteq> Some serviceWorkerArchitecture)
   \<and> (Navigate c \<in> set (snd (activate e (fst (snd (install e0 (freshWorker cache0 store0))))))
        \<longrightarrow> registrationActive e0)"
proof -
  let ?installed = "fst (snd (install e0 (freshWorker cache0 store0)))"
  have same: "idbStore w idbKeys_architecture = Some serviceWorkerArchitecture \<longrightarrow>
      activate e w = (w, [CachesDelete (runtimeCacheName e), IdbGet idbKeys_architecture])"
    by (simp add: activate_def)
  have changed: "idbStore w idbKeys_architecture \<noteq> Some serviceWorkerArchitecture \<longrightarrow>
        idbStore (fst (activate e w)) idbKeys_architecture = Some serviceWorkerArchitecture
        \<and> IdbSet idbKeys_architecture serviceWorkerArchitecture \<in> set (snd (activate e w))
        \<and> ClientsClaim \<in> set (snd (activate e w))
        \<and> (replacingPreviousServiceWorker w \<longrightarrow>
             (\<forall>c \<in> set (windowClients e). Navigate c \<in> set (snd (activate e w))))"
    by (simp add: activate_def Let_def)
  have reload: "Navigate c \<in> set (snd (activate e v)) \<longrightarrow>
        replacingPreviousServiceWorker v \<and> c \<in> set (windowClients e)
        \<and> idbStore v idbKeys_architecture \<noteq> Some serviceWorkerArchitecture" for v
    by (auto simp add: activate_def Let_def split: if_splits)
  have flag: "replacingPreviousServiceWorker ?installed = registrationActive e0"
    by (simp add: install_replacing freshWorker_def)
  have upgrade: "Navigate c \<in> set (snd (activate e ?installed)) \<longrightarrow> registrationActive e0"
    using reload [of ?installed] flag by blast
  from same changed reload [of w] upgrade show ?thesis by blast
qed

theorem activate_architecture_witness:
  "idbStore settledWorld idbKeys_architecture = Some serviceWorkerArchitecture
   \<and> activate offlineEnv settledWorld
       = (settledWorld, [CachesDelete ''workbox-runtime'', IdbGet idbKeys_architecture])
   \<and> idbStore upgradingWorld idbKeys_architecture \<noteq> Some serviceWorkerArchitecture
   \<and> replacingPreviousServiceWorker upgradingWorld
   \<and> idbStore (fst (activate offlineEnv upgradingWorld)) idbKeys_architecture
       = Some serviceWorkerArchitecture
   \<and> ClientsClaim \<in> set (snd (activate offlineEnv upgradingWorld))
   \<and> Navigate ''https://web.dev/blog/'' \<in> set (snd (activate offlineEnv upgradingWorld))"
  using activate_architecture [of settledWorld offlineEnv]
    activate_architecture [of upgradingWorld offlineEnv]
  by (simp add: settledWorld_def upgradingWorld_def offlineEnv_def)

subsection \<open>A refresh that throws\<close>

text \<open>
  C6, amended. Let \<open>updateTemplate\<close> throw \<open>x\<close>. With no entry in the cache,
  \<open>templateForPartial\<close> throws \<open>x\<close>. With a cached bundle and a refresh decided (its
  \<open>resourcesVersion\<close> is absent or empty, or it differs from the partial's and its
  \<open>builtAt\<close> is not greater), the function returns the cached template when that is a
  non-empty string, and throws \<open>x\<close> when the cached template is absent or the empty
  string.
\<close>

theorem templateForPartial_refresh_throws:
  assumes "fst (updateTemplate e w) = Inl x"
  shows "(webdevCore w (resolveUrl e templateUrl) = None \<longrightarrow>
            fst (templateForPartial e w partial) = Inl x)
       \<and> (webdevCore w (resolveUrl e templateUrl) = Some cachedResponse \<longrightarrow>
            json_of cachedResponse = Inr (JsonObject cached) \<longrightarrow>
            (\<not> truthy (resourcesVersion cached)
             \<or> (\<exists>p. partial = JsonObject p
                     \<and> resourcesVersion cached \<noteq> resourcesVersion p
                     \<and> \<not> jsGreater (builtAt cached) (builtAt p))) \<longrightarrow>
            fst (templateForPartial e w partial)
              = (if truthy (template cached) then Inr (template cached) else Inl x))"
  using refreshOrFallback_error [OF tryUpdate_error [OF assms]]
  by (auto simp add: templateForPartial_def Let_def following_fst truthy_def)

theorem templateForPartial_refresh_throws_witness:
  "fst (updateTemplate offlineEnv cachedWorld) = Inl NetworkError
   \<and> fst (updateTemplate offlineEnv emptyWorld) = Inl NetworkError
   \<and> webdevCore emptyWorld (resolveUrl offlineEnv templateUrl) = None
   \<and> fst (templateForPartial offlineEnv emptyWorld (JsonObject newerPartial))
       = Inl NetworkError
   \<and> resourcesVersion exampleBundle \<noteq> resourcesVersion newerPartial
   \<and> \<not> jsGreater (builtAt exampleBundle) (builtAt newerPartial)
   \<and> fst (templateForPartial offlineEnv cachedWorld (JsonObject newerPartial))
       = Inr (Some exampleTemplate)"
proof -
  have thrown: "fst (updateTemplate offlineEnv v) = Inl NetworkError" for v
    by (simp add: updateTemplate_offline)
  have absent: "webdevCore emptyWorld (resolveUrl offlineEnv templateUrl) = None"
    by (simp add: emptyWorld_def freshWorker_def)
  have present: "webdevCore cachedWorld (resolveUrl offlineEnv templateUrl)
                   = Some (newResponse (Json (JsonObject exampleBundle)))"
    by (simp add: offlineEnv_def cachedWorld_entry)
  have stale: "resourcesVersion exampleBundle \<noteq> resourcesVersion newerPartial"
    "\<not> jsGreater (builtAt exampleBundle) (builtAt newerPartial)"
    by (simp_all add: exampleBundle_def newerPartial_def jsGreater_def)
  have first: "fst (templateForPartial offlineEnv emptyWorld (JsonObject newerPartial))
                 = Inl NetworkError"
    using absent
      templateForPartial_refresh_throws
        [OF thrown [of emptyWorld], where partial = "JsonObject newerPartial"]
    by simp
  have second: "fst (templateForPartial offlineEnv cachedWorld (JsonObject newerPartial))
                  = Inr (Some exampleTemplate)"
    using stale present
      templateForPartial_refresh_throws
        [OF thrown [of cachedWorld], where partial = "JsonObject newerPartial"
           and cachedResponse = "newResponse (Json (JsonObject exampleBundle))"
           and cached = exampleBundle]
    by (simp add: json_of_newResponse) (simp add: exampleBundle_def truthy_def exampleTemplate_def)
  from thrown absent stale first second show ?thesis by blast
qed

text \<open>
  C6 as stated fails for a cached bundle whose template is the empty string: the bundle
  is in the cache, a refresh is decided and throws, and \<open>templateForPartial\<close> throws the
  network error instead of returning the cached template.
\<close>

theorem templateForPartial_empty_template_counterexample:
  "webdevCore blankWorld (resolveUrl offlineEnv templateUrl)
     = Some (newResponse (Json (JsonObject blankBundle)))
   \<and> template blankBundle = Some []
   \<and> resourcesVersion blankBundle \<noteq> resourcesVersion examplePartial
   \<and> \<not> jsGreater (builtAt blankBundle) (builtAt examplePartial)
   \<and> fst (updateTemplate offlineEnv blankWorld) = Inl NetworkError
   \<and> fst (templateForPartial offlineEnv blankWorld (JsonObject examplePartial))
       = Inl NetworkError
   \<and> fst (templateForPartial offlineEnv blankWorld (JsonObject examplePartial))
       \<noteq> Inr (template blankBundle)"
  by (simp add: templateForPartial_def blankWorld_def freshWorker_def json_of_newResponse
      blankBundle_def examplePartial_def truthy_def jsGreater_def following_fst
      refreshOrFallback_offline updateTemplate_offline offlineEnv_resolve)

subsection \<open>A partial without version fields\<close>







subsection \<open>What updateTemplate writes to the cache\<close>



lemma updateTemplate_assetsDown:
  "updateTemplate assetsDownEnv w
     = (Inl TypeError,
        w\<lparr>webdevCore := (webdevCore w)(siteUrl templateUrl \<mapsto>
             newResponse (Json (JsonObject (networkBundle\<lparr>manifest := None\<rparr>))))\<rparr>,
        [Fetch templateUrl, CachesOpen cacheNames_webdevCore,
         CachePut templateUrl
           (newResponse (Json (JsonObject (networkBundle\<lparr>manifest := None\<rparr>)))),
         CacheAddAll [''/app.css'']])"
  by (simp add: updateTemplate_def assetsDownEnv_def json_of_newResponse Let_def
      networkBundle_def addAll_def fetchedOk_def requestInfo_def toString_def templateUrl_def)





subsection \<open>Failures inside updateTemplate\<close>

text \<open>
  C9. If the fetch of the template endpoint throws, or the body of its response does not
  parse as JSON, \<open>updateTemplate\<close> throws that error, leaves the state as it was and has
  made no call but the fetch. A \<open>cache.put\<close> is made only when the fetch and the parse
  have both succeeded. If both succeeded with a bundle and \<open>updateTemplate\<close> throws later
  (the manifest is missing or an asset cannot be precached), the stripped bundle has been
  put and is the entry of the template URL in the state left behind.
\<close>

theorem updateTemplate_failure_order:
  "(network e templateUrl = Inl x \<longrightarrow>
      updateTemplate e w = (Inl x, w, [Fetch templateUrl]))
   \<and> (network e templateUrl = Inr networkResponse \<longrightarrow>
        json_of networkResponse = Inl x \<longrightarrow>
        updateTemplate e w = (Inl x, w, [Fetch templateUrl]))
   \<and> (CachePut k r \<in> set (snd (snd (updateTemplate e w))) \<longrightarrow>
        (\<exists>fetched parsed. network e templateUrl = Inr fetched
                          \<and> json_of fetched = Inr parsed))
   \<and> (network e templateUrl = Inr networkResponse \<longrightarrow>
        json_of networkResponse = Inr (JsonObject rawBundle) \<longrightarrow>
        fst (updateTemplate e w) = Inl x \<longrightarrow>
        webdevCore (fst (snd (updateTemplate e w))) (resolveUrl e templateUrl)
          = Some (newResponse (Json (JsonObject (rawBundle\<lparr>manifest := None\<rparr>))))
        \<and> CachePut templateUrl (newResponse (Json (JsonObject (rawBundle\<lparr>manifest := None\<rparr>))))
             \<in> set (snd (snd (updateTemplate e w))))"
proof -
  have fetchFails: "network e templateUrl = Inl x \<longrightarrow>
      updateTemplate e w = (Inl x, w, [Fetch templateUrl])"
    by (simp add: updateTemplate_def)
  have parseFails: "network e templateUrl = Inr networkResponse \<longrightarrow>
        json_of networkResponse = Inl x \<longrightarrow>
        updateTemplate e w = (Inl x, w, [Fetch templateUrl])"
    by (simp add: updateTemplate_def)
  have onlyAfter: "CachePut k r \<in> set (snd (snd (updateTemplate e w))) \<longrightarrow>
        (\<exists>fetched parsed. network e templateUrl = Inr fetched
                          \<and> json_of fetched = Inr parsed)"
    by (auto simp add: updateTemplate_def Let_def
        split: sum.splits json.splits option.splits)
  have notUndone: "network e templateUrl = Inr networkResponse \<longrightarrow>
        json_of networkResponse = Inr (JsonObject rawBundle) \<longrightarrow>
        fst (updateTemplate e w) = Inl x \<longrightarrow>
        webdevCore (fst (snd (updateTemplate e w))) (resolveUrl e templateUrl)
          = Some (newResponse (Json (JsonObject (rawBundle\<lparr>manifest := None\<rparr>))))
        \<and> CachePut templateUrl (newResponse (Json (JsonObject (rawBundle\<lparr>manifest := None\<rparr>))))
             \<in> set (snd (snd (updateTemplate e w)))"
    by (auto simp add: updateTemplate_def Let_def
        split: sum.splits json.splits option.splits)
  from fetchFails parseFails onlyAfter notUndone show ?thesis by blast
qed

theorem updateTemplate_failure_order_witness:
  "network offlineEnv templateUrl = Inl NetworkError
   \<and> updateTemplate offlineEnv cachedWorld = (Inl NetworkError, cachedWorld, [Fetch templateUrl])
   \<and> network assetsDownEnv templateUrl = Inr (newResponse (Json (JsonObject networkBundle)))
   \<and> fst (updateTemplate assetsDownEnv cachedWorld) = Inl TypeError
   \<and> webdevCore (fst (snd (updateTemplate assetsDownEnv cachedWorld)))
        (resolveUrl assetsDownEnv templateUrl)
       = Some (newResponse (Json (JsonObject (networkBundle\<lparr>manifest := None\<rparr>))))"
proof -
  have down: "network offlineEnv templateUrl = Inl NetworkError"
    by (simp add: offlineEnv_def)
  have up: "network assetsDownEnv templateUrl
              = Inr (newResponse (Json (JsonObject networkBundle)))"
    by (simp add: assetsDownEnv_def)
  have late: "fst (updateTemplate assetsDownEnv cachedWorld) = Inl TypeError"
    by (simp add: updateTemplate_assetsDown)
  show ?thesis
    using down up late
      updateTemplate_failure_order
        [where e = offlineEnv and w = cachedWorld and x = NetworkError]
      updateTemplate_failure_order
        [where e = assetsDownEnv and w = cachedWorld and x = TypeError
           and networkResponse = "newResponse (Json (JsonObject networkBundle))"
           and rawBundle = networkBundle]
    by (simp add: json_of_newResponse)
qed

subsection \<open>Redirecting to the path with a trailing slash\<close>






subsection \<open>Substituting the two markers\<close>











end
